theory Spec2Isabelle
  imports Complex_Main
begin

section \<open>Python strings\<close>

text \<open>
  A Python \<open>str\<close> is a sequence of code points. It is modelled as a \<open>string\<close> whose
  characters are the code points 0 to 255, so \<open>length\<close> counts code points as \<open>len\<close>
  does. The no-break space U+00A0 is \<open>CHR 0xA0\<close>.
\<close>

definition nbsp :: char where
  "nbsp = CHR 0xA0"

text \<open>
  \<open>str.isspace\<close> on one code point below 256: tab, LF, VT, FF, CR, the separators
  U+001C to U+001F, the space, NEL (U+0085) and the no-break space.
\<close>

definition isspace :: "char \<Rightarrow> bool" where
  "isspace c = (of_char c \<in> {9, 10, 11, 12, 13, 28, 29, 30, 31, 32, 133, 160 :: nat})"

text \<open>\<open>s.strip()\<close> without argument removes leading and trailing whitespace.\<close>

definition lstrip :: "string \<Rightarrow> string" where
  "lstrip s = dropWhile isspace s"

definition rstrip :: "string \<Rightarrow> string" where
  "rstrip s = rev (dropWhile isspace (rev s))"

definition strip :: "string \<Rightarrow> string" where
  "strip s = rstrip (lstrip s)"

text \<open>
  \<open>s.replace(old, new)\<close> where \<open>old\<close> is one character, which is the only way
  the program calls it: every occurrence of the character becomes \<open>new\<close>.
\<close>

fun replace :: "string \<Rightarrow> char \<Rightarrow> string \<Rightarrow> string" where
  "replace [] old new = []"
| "replace (c # cs) old new = (if c = old then new else [c]) @ replace cs old new"

section \<open>Cells and their text\<close>

text \<open>
  The table holds Python objects (\<open>dtype=object\<close>): text, the integers that
  \<open>add_row\<close> stores, and the missing value NaN that a spreadsheet import can leave.
\<close>

datatype cell = PyStr string | PyInt int | PyNaN

datatype pyerror = ValueError | KeyError

definition digit_char :: "nat \<Rightarrow> char" where
  "digit_char d = char_of (48 + d)"

function digits :: "nat \<Rightarrow> string" where
  "digits n = (if n < 10 then [digit_char n] else digits (n div 10) @ [digit_char (n mod 10)])"
  by pat_completeness auto
termination
  by (relation "measure (\<lambda>n. n)") auto

declare digits.simps [simp del]

text \<open>\<open>str(x)\<close>: text is itself, an integer is its decimal numeral, NaN prints as \<open>nan\<close>.\<close>

fun str :: "cell \<Rightarrow> string" where
  "str (PyStr s) = s"
| "str (PyInt i) = (if i < 0 then CHR ''-'' # digits (nat (- i)) else digits (nat i))"
| "str PyNaN = ''nan''"

text \<open>
  \<open>str.isdigit\<close>: the string is not empty and every character is a digit. Below 256
  the digits are \<open>0\<close> to \<open>9\<close> and the superscripts two, three and one
  (U+00B2, U+00B3, U+00B9), which are digits but not decimals.
\<close>

definition isdecimal_char :: "char \<Rightarrow> bool" where
  "isdecimal_char c = (48 \<le> (of_char c :: nat) \<and> (of_char c :: nat) \<le> 57)"

definition isdigit_char :: "char \<Rightarrow> bool" where
  "isdigit_char c = (isdecimal_char c \<or> of_char c \<in> {178, 179, 185 :: nat})"

definition isdigit :: "string \<Rightarrow> bool" where
  "isdigit s = (s \<noteq> [] \<and> list_all isdigit_char s)"

text \<open>
  A run of decimal digits in which single underscores may stand between two digits,
  as \<open>int\<close> and \<open>float\<close> accept it.
\<close>

fun digitpart :: "string \<Rightarrow> bool" where
  "digitpart [] = False"
| "digitpart [c] = isdecimal_char c"
| "digitpart (c # d # cs) =
     (isdecimal_char c \<and> (if d = CHR ''_'' then digitpart cs else digitpart (d # cs)))"

definition digit_val :: "char \<Rightarrow> nat" where
  "digit_val c = of_char c - 48"

definition decimal_value :: "string \<Rightarrow> nat" where
  "decimal_value s = foldl (\<lambda>n c. 10 * n + digit_val c) 0 (filter (\<lambda>c. c \<noteq> CHR ''_'') s)"

text \<open>
  \<open>int(s)\<close> on text, base ten: surrounding whitespace is dropped, one sign is allowed,
  then comes a digit run; anything else raises \<open>ValueError\<close>. (The interpreter's cap on
  the number of digits of a numeral is left out.)
\<close>

definition py_int :: "string \<Rightarrow> pyerror + int" where
  "py_int s0 =
     (let s = strip s0;
          neg = (s \<noteq> [] \<and> hd s = CHR ''-'');
          body = (if s \<noteq> [] \<and> (hd s = CHR ''-'' \<or> hd s = CHR ''+'') then tl s else s)
      in if digitpart body
         then Inr (if neg then - int (decimal_value body) else int (decimal_value body))
         else Inl ValueError)"

section \<open>The table\<close>

text \<open>
  A \<open>pandas.DataFrame\<close> whose row labels are \<open>0, 1, ..., n - 1\<close>, which
  \<open>ignore_index=True\<close> and \<open>reset_index(drop=True)\<close> restore after every change: the
  column names in order, and the rows in order, each row a list of cells.
\<close>

record dataframe =
  columns :: "string list"
  data :: "cell list list"

definition COLUMNS :: "string list" where
  "COLUMNS =
     [''PO_No.'', ''Amount'', ''CCY/RON'', ''Payer Account IBAN'',
      ''Payee Name'', ''Payee address 1'', ''Payee address 2'',
      ''Payee CUI'', ''Payee Account IBAN'',
      ''Details 1'', ''Details 2'', ''Details 3'',
      ''Processing date'', ''Processing Method'']"

text \<open>Every row has one cell for each column, and no column name occurs twice.\<close>

definition wf_df :: "dataframe \<Rightarrow> bool" where
  "wf_df d = (distinct (columns d) \<and> list_all (\<lambda>r. length r = length (columns d)) (data d))"

text \<open>
  A Python slice \<open>xs[lo:hi]\<close> with step one. A bound left out is \<open>None\<close>; a negative
  bound counts from the end; both are clamped to the length.
\<close>

definition slice_bound :: "nat \<Rightarrow> int \<Rightarrow> nat" where
  "slice_bound n i = (if i < 0 then nat (max 0 (i + int n)) else min (nat i) n)"

definition slice :: "'a list \<Rightarrow> int option \<Rightarrow> int option \<Rightarrow> 'a list" where
  "slice xs lo hi =
     (let n = length xs;
          l = (case lo of None \<Rightarrow> 0 | Some i \<Rightarrow> slice_bound n i);
          h = (case hi of None \<Rightarrow> n | Some i \<Rightarrow> slice_bound n i)
      in take (h - l) (drop l xs))"

text \<open>\<open>df.drop(labels)\<close>: the rows whose label is not among \<open>labels\<close>, in order.\<close>

definition drop_labels :: "nat list \<Rightarrow> 'a list \<Rightarrow> 'a list" where
  "drop_labels labels xs = map snd (filter (\<lambda>(i, x). i \<notin> set labels) (zip [0..<length xs] xs))"

text \<open>
  The table model of the view: the frame it owns, and the number of times it has emitted
  \<open>dataChangedSignal\<close>.
\<close>

record PandasModel =
  df :: dataframe
  emitted :: nat

definition rowCount :: "PandasModel \<Rightarrow> int" where
  "rowCount m = int (length (data (df m)))"

definition columnCount :: "PandasModel \<Rightarrow> nat" where
  "columnCount m = length (columns (df m))"

text \<open>
  \<^verbatim>\<open>
  def insertRows(self, position, rows=1, parent=QModelIndex()):
      empty = pd.DataFrame([[""] * self.columnCount() for _ in range(rows)], columns=self._df.columns)
      top = self._df.iloc[:position]
      bottom = self._df.iloc[position:]
      self._df = pd.concat([top, empty, bottom], ignore_index=True)
      self.dataChangedSignal.emit()
      return True
  \<close>
\<close>

definition insertRows :: "int \<Rightarrow> int \<Rightarrow> PandasModel \<Rightarrow> bool \<times> PandasModel" where
  "insertRows position rows m =
     (let empty = replicate (nat rows) (replicate (columnCount m) (PyStr ''''));
          top = slice (data (df m)) None (Some position);
          bottom = slice (data (df m)) (Some position) None
      in (True, m\<lparr>df := (df m)\<lparr>data := top @ empty @ bottom\<rparr>, emitted := emitted m + 1\<rparr>))"

text \<open>
  \<^verbatim>\<open>
  def removeRows(self, position, rows=1, parent=QModelIndex()):
      if position < 0 or position >= self.rowCount():
          return False
      self._df = self._df.drop(self._df.index[position:position + rows]).reset_index(drop=True)
      self.dataChangedSignal.emit()
      return True
  \<close>
\<close>

definition removeRows :: "int \<Rightarrow> int \<Rightarrow> PandasModel \<Rightarrow> bool \<times> PandasModel" where
  "removeRows position rows m =
     (if position < 0 \<or> position \<ge> rowCount m then (False, m)
      else
        let index = [0..<length (data (df m))];
            labels = slice index (Some position) (Some (position + rows))
        in (True, m\<lparr>df := (df m)\<lparr>data := drop_labels labels (data (df m))\<rparr>,
                     emitted := emitted m + 1\<rparr>))"

section \<open>Amount normalisation\<close>

text \<open>
  \<^verbatim>\<open>
  def money_to_csv(s: str) -> str:
      s = str(s).strip()
      if not s:
          return ""
      s = s.replace(" ", "").replace("\\u00A0", "")
      s = s.replace(".", "#").replace(",", ".").replace("#", "")
      return s
  \<close>
  The function on a \<open>str\<close> argument, where \<open>str(s)\<close> is \<open>s\<close>.
\<close>

definition money_to_csv_str :: "string \<Rightarrow> string" where
  "money_to_csv_str s0 =
     (let s = strip s0 in
      if s = [] then []
      else
        let s = replace (replace s CHR '' '' []) nbsp [];
            s = replace (replace (replace s CHR ''.'' ''#'') CHR '','' ''.'') CHR ''#'' []
        in s)"

section \<open>The company tab: adding a row\<close>

text \<open>
  \<open>df.at[row, col]\<close> reads one cell by row label and column name, and raises
  \<open>KeyError\<close> when either is missing.
\<close>

fun col_index :: "string list \<Rightarrow> string \<Rightarrow> nat option" where
  "col_index [] c = None"
| "col_index (x # xs) c = (if x = c then Some 0 else map_option Suc (col_index xs c))"

definition at_get :: "dataframe \<Rightarrow> int \<Rightarrow> string \<Rightarrow> pyerror + cell" where
  "at_get d row col =
     (case col_index (columns d) col of
        None \<Rightarrow> Inl KeyError
      | Some j \<Rightarrow>
          if 0 \<le> row \<and> row < int (length (data d)) then Inr (data d ! nat row ! j)
          else Inl KeyError)"

text \<open>
  \<open>df.at[row, col] = v\<close> for a row label and a column that exist. (On a missing label
  pandas would add a row or a column; \<open>add_row\<close> below never gets there.)
\<close>

definition at_set :: "dataframe \<Rightarrow> nat \<Rightarrow> nat \<Rightarrow> cell \<Rightarrow> dataframe" where
  "at_set d i j v = d\<lparr>data := (data d)[i := (data d ! i)[j := v]]\<rparr>"

text \<open>
  \<^verbatim>\<open>
  def add_row(self, position=None):
      if position is None:
          position = self.model.rowCount()
      self.model.insertRows(position, 1)
      # PO_No. auto-increment
      try:
          if position > 0:
              prev = self.model._df.at[position - 1, "PO_No."]
              n = int(str(prev)) if str(prev).isdigit() else position + 1
          else:
              n = 1
          self.model._df.at[position, "PO_No."] = n
      except Exception:
          pass
  \<close>
  The number that the \<open>try\<close> block computes, or the exception it raises:
\<close>

definition po_number :: "dataframe \<Rightarrow> int \<Rightarrow> pyerror + int" where
  "po_number d position =
     (if position > 0 then
        (case at_get d (position - 1) ''PO_No.'' of
           Inl e \<Rightarrow> Inl e
         | Inr prev \<Rightarrow> if isdigit (str prev) then py_int (str prev) else Inr (position + 1))
      else Inr 1)"

text \<open>
  The two callers pass no position (the button: the row goes to the end) or the current
  row plus one (the context menu), so \<open>0 \<le> position \<le> rowCount\<close>, and the frame of a tab
  always has the column \<open>PO_No.\<close>. The result is \<open>None\<close> outside of that, where the model
  says nothing.
\<close>

definition add_row :: "int option \<Rightarrow> PandasModel \<Rightarrow> PandasModel option" where
  "add_row pos m =
     (let position = (case pos of None \<Rightarrow> rowCount m | Some p \<Rightarrow> p) in
      case col_index (columns (df m)) ''PO_No.'' of
        None \<Rightarrow> None
      | Some j \<Rightarrow>
          if position < 0 \<or> position > rowCount m then None
          else
            let m1 = snd (insertRows position 1 m) in
            (case po_number (df m1) position of
               Inl e \<Rightarrow> Some m1
             | Inr n \<Rightarrow> Some (m1\<lparr>df := at_set (df m1) (nat position) j (PyInt n)\<rparr>)))"

section \<open>The IBAN pattern\<close>

text \<open>
  The part of Python's \<open>re\<close> syntax that \<open>IBAN_REGEX\<close> is written in: a pattern is a
  sequence of nodes; a node is \<open>^\<close>, \<open>$\<close>, one atom, or an atom repeated at least
  \<open>n\<close> times (\<open>{n,}\<close>); an atom is a literal character or a class of character ranges.
\<close>

datatype atom = Chr char | Class "(char \<times> char) list"

datatype node = Bol | Eol | Atom atom | Repeat atom nat

fun atom_has :: "atom \<Rightarrow> char \<Rightarrow> bool" where
  "atom_has (Chr a) c = (c = a)"
| "atom_has (Class rs) c = list_ex (\<lambda>(lo, hi). (of_char lo :: nat) \<le> of_char c \<and> (of_char c :: nat) \<le> of_char hi) rs"

definition ascii_lower :: "char \<Rightarrow> char" where
  "ascii_lower c = (if 65 \<le> (of_char c :: nat) \<and> (of_char c :: nat) \<le> 90 then char_of (of_char c + 32 :: nat) else c)"

definition ascii_upper :: "char \<Rightarrow> char" where
  "ascii_upper c = (if 97 \<le> (of_char c :: nat) \<and> (of_char c :: nat) \<le> 122 then char_of (of_char c - 32 :: nat) else c)"

text \<open>
  Under \<open>re.IGNORECASE\<close> a character also matches when its other case does. The
  patterns here name ASCII characters only, and no code point below 256 outside ASCII
  has its other case inside ASCII, so the ASCII case pairs are all that count.
\<close>

definition atom_match :: "bool \<Rightarrow> atom \<Rightarrow> char \<Rightarrow> bool" where
  "atom_match ignorecase a c =
     (atom_has a c \<or> (ignorecase \<and> (atom_has a (ascii_lower c) \<or> atom_has a (ascii_upper c))))"

text \<open>
  \<open>pattern.match(s)\<close> as a truth value: is there a match that begins at the start of
  \<open>s\<close>? \<open>pos\<close> counts the characters consumed so far. \<open>^\<close> holds at the start; \<open>$\<close>
  holds at the end and just before a line feed that ends the string.
\<close>

fun run :: "bool \<Rightarrow> node list \<Rightarrow> nat \<Rightarrow> string \<Rightarrow> bool" where
  "run ic [] pos s = True"
| "run ic (Bol # p) pos s = (pos = 0 \<and> run ic p pos s)"
| "run ic (Eol # p) pos s = ((s = [] \<or> s = [CHR 0x0A]) \<and> run ic p pos s)"
| "run ic (Atom a # p) pos [] = False"
| "run ic (Atom a # p) pos (c # cs) = (atom_match ic a c \<and> run ic p (Suc pos) cs)"
| "run ic (Repeat a n # p) pos [] = (n = 0 \<and> run ic p pos [])"
| "run ic (Repeat a n # p) pos (c # cs) =
     ((atom_match ic a c \<and> run ic (Repeat a (n - 1) # p) (Suc pos) cs) \<or>
      (n = 0 \<and> run ic p pos (c # cs)))"

text \<open>\<^verbatim>\<open>IBAN_REGEX = re.compile(r"^RO[A-Z0-9]{2,}$", re.IGNORECASE)\<close>\<close>

definition IBAN_REGEX :: "node list" where
  "IBAN_REGEX =
     [Bol, Atom (Chr CHR ''R''), Atom (Chr CHR ''O''),
      Repeat (Class [(CHR ''A'', CHR ''Z''), (CHR ''0'', CHR ''9'')]) 2, Eol]"

definition IBAN_REGEX_match :: "string \<Rightarrow> bool" where
  "IBAN_REGEX_match s = run True IBAN_REGEX 0 s"

section \<open>The company tab: export\<close>

text \<open>
  \<open>money_to_csv\<close> as \<open>Series.map\<close> applies it to a cell: the text of \<open>str(s)\<close>, normalised.
\<close>

definition money_to_csv :: "cell \<Rightarrow> cell" where
  "money_to_csv x = PyStr (money_to_csv_str (str x))"

text \<open>\<^verbatim>\<open>lambda x: str(x).replace("\r", " ").replace("\n", " ").strip()\<close>\<close>

definition strip_crlf :: "cell \<Rightarrow> cell" where
  "strip_crlf x = PyStr (strip (replace (replace (str x) CHR 0x0D '' '') CHR 0x0A '' ''))"

text \<open>
  \<open>df[col] = df[col].map(f)\<close> for a column of the frame: the cell of that column
  becomes \<open>f\<close> of itself in every row.
\<close>

definition map_column :: "string \<Rightarrow> (cell \<Rightarrow> cell) \<Rightarrow> dataframe \<Rightarrow> dataframe" where
  "map_column col f d =
     (case col_index (columns d) col of
        None \<Rightarrow> d
      | Some j \<Rightarrow> d\<lparr>data := map (\<lambda>r. r[j := f (r ! j)]) (data d)\<rparr>)"

text \<open>\<open>df[col].tolist()\<close>: the cells of one column, top to bottom; \<open>KeyError\<close> without it.\<close>

definition column :: "dataframe \<Rightarrow> string \<Rightarrow> pyerror + cell list" where
  "column d col =
     (case col_index (columns d) col of
        None \<Rightarrow> Inl KeyError
      | Some j \<Rightarrow> Inr (map (\<lambda>r. r ! j) (data d)))"

text \<open>
  The first two steps of \<open>export_csv\<close>, on the copy of the frame:
  \<^verbatim>\<open>
  if "Amount" in df.columns:
      df["Amount"] = df["Amount"].map(money_to_csv)
  for col in df.columns:
      df[col] = df[col].map(lambda x: str(x).replace("\r", " ").replace("\n", " ").strip())
  \<close>
\<close>

definition normalize_amount :: "dataframe \<Rightarrow> dataframe" where
  "normalize_amount d =
     (if ''Amount'' \<in> set (columns d) then map_column ''Amount'' money_to_csv d else d)"

definition strip_text :: "dataframe \<Rightarrow> dataframe" where
  "strip_text d = fold (\<lambda>col d'. map_column col strip_crlf d') (columns d) d"

definition export_frame :: "dataframe \<Rightarrow> dataframe" where
  "export_frame d = strip_text (normalize_amount d)"

text \<open>
  \<^verbatim>\<open>
  bad = []
  for col in ("Payer Account IBAN", "Payee Account IBAN"):
      for i, val in enumerate(df[col].tolist()):
          if str(val).strip() and not IBAN_REGEX.match(str(val).strip()):
              bad.append((i + 1, col))
  \<close>
\<close>

definition bad_in_column :: "string \<Rightarrow> cell list \<Rightarrow> (nat \<times> string) list" where
  "bad_in_column col vals =
     map (\<lambda>(i, val). (i + 1, col))
       (filter (\<lambda>(i, val). strip (str val) \<noteq> [] \<and> \<not> IBAN_REGEX_match (strip (str val)))
          (zip [0..<length vals] vals))"

definition bad_ibans :: "dataframe \<Rightarrow> pyerror + (nat \<times> string) list" where
  "bad_ibans d =
     (case column d ''Payer Account IBAN'' of
        Inl e \<Rightarrow> Inl e
      | Inr payer \<Rightarrow>
          (case column d ''Payee Account IBAN'' of
             Inl e \<Rightarrow> Inl e
           | Inr payee \<Rightarrow>
               Inr (bad_in_column ''Payer Account IBAN'' payer @
                    bad_in_column ''Payee Account IBAN'' payee)))"

text \<open>
  The tab: its table model, the text of the path field and the three option boxes.
\<close>

record CompanyTab =
  model :: PandasModel
  path_edit :: string
  no_header_chk :: bool
  crlf_chk :: bool
  bom_chk :: bool

text \<open>
  The message boxes a user action shows, in order. \<open>Validation\<close> carries the sample
  \<open>bad[:5]\<close> that the warning prints; \<open>ExportError\<close> and \<open>ImportError\<close> carry the text
  of the exception; \<open>Exported\<close> carries the path.
\<close>

datatype failure = Message string | Raised pyerror

datatype dialog =
    NoPath
  | Validation "(nat \<times> string) list"
  | ExportError string
  | Exported string
  | ImportError failure

text \<open>
  The files: a map from the path of a file to its contents. What the operating system
  answers to the three calls that touch it is an input: \<open>None\<close> where a call succeeds,
  the text of the exception where it raises. A write that raises may leave anything
  under the temporary name, or nothing: \<open>partial_tmp\<close>.
\<close>

type_synonym files = "string \<rightharpoonup> string"

record os_answers =
  to_csv_raises :: "string option"
  partial_tmp :: "string option"
  remove_raises :: "string option"
  replace_raises :: "string option"

text \<open>
  \<^verbatim>\<open>
  def export_csv(self):
      path = self.path_edit.text().strip()
      if not path:
          QMessageBox.warning(self, "No path", "Choose a CSV path first.")
          return
      df = self.model._df.copy()
      ...                                   # export_frame, bad_ibans
      if bad:
          QMessageBox.warning(self, "Validation", f"... Sample rows: {bad[:5]}")
      header = not self.no_header_chk.isChecked()
      encoding = "utf-8-sig" if self.bom_chk.isChecked() else "utf-8"
      line_ending = "\r\n" if self.crlf_chk.isChecked() else "\n"
      try:
          tmp = path + ".tmp"
          df.to_csv(tmp, index=False, header=header, encoding=encoding, lineterminator=line_ending)
          if os.path.exists(path):
              os.remove(path)
          os.replace(tmp, path)
      except Exception as e:
          QMessageBox.critical(self, "Export error", str(e))
          return
      QMessageBox.information(self, "Exported", f"CSV saved:\n{path}")
  \<close>
  The bytes that pandas writes for a frame under the three options are the parameter
  \<open>to_csv\<close>. The result is the messages shown and the files afterwards, or the exception
  that the loop over the two IBAN columns raises outside of the \<open>try\<close>. The body of
  the \<open>try\<close> is \<open>write_and_swap\<close>: its outcome and the files it leaves.
\<close>

definition os_replace :: "os_answers \<Rightarrow> string \<Rightarrow> string \<Rightarrow> files \<Rightarrow> string + files" where
  "os_replace os src dst fs =
     (case replace_raises os of
        Some e \<Rightarrow> Inl e
      | None \<Rightarrow> Inr (fs(dst := fs src, src := None)))"

definition os_remove :: "os_answers \<Rightarrow> string \<Rightarrow> files \<Rightarrow> string + files" where
  "os_remove os p fs =
     (case remove_raises os of
        Some e \<Rightarrow> Inl e
      | None \<Rightarrow> Inr (fs(p := None)))"

definition write_and_swap :: "os_answers \<Rightarrow> string \<Rightarrow> string \<Rightarrow> files \<Rightarrow> (string + unit) \<times> files" where
  "write_and_swap os path bytes fs =
     (let tmp = path @ ''.tmp'' in
      case to_csv_raises os of
        Some e \<Rightarrow> (Inl e, fs(tmp := partial_tmp os))
      | None \<Rightarrow>
          let fs1 = fs(tmp \<mapsto> bytes) in
          (case (if path \<in> dom fs1 then os_remove os path fs1 else Inr fs1) of
             Inl e \<Rightarrow> (Inl e, fs1)
           | Inr fs2 \<Rightarrow>
               (case os_replace os tmp path fs2 of
                  Inl e \<Rightarrow> (Inl e, fs2)
                | Inr fs3 \<Rightarrow> (Inr (), fs3))))"

definition export_csv ::
  "(dataframe \<Rightarrow> bool \<Rightarrow> string \<Rightarrow> string \<Rightarrow> string) \<Rightarrow> os_answers \<Rightarrow> CompanyTab \<Rightarrow> files \<Rightarrow>
   pyerror + (dialog list \<times> files)" where
  "export_csv to_csv os tab fs =
     (let path = strip (path_edit tab) in
      if path = [] then Inr ([NoPath], fs)
      else
        let d = export_frame (df (model tab)) in
        case bad_ibans d of
          Inl e \<Rightarrow> Inl e
        | Inr bad \<Rightarrow>
            let shown = (if bad \<noteq> [] then [Validation (take 5 bad)] else []);
                header = (\<not> no_header_chk tab);
                encoding = (if bom_chk tab then ''utf-8-sig'' else ''utf-8'');
                line_ending = (if crlf_chk tab then [CHR 0x0D, CHR 0x0A] else [CHR 0x0A])
            in
            (case write_and_swap os path (to_csv d header encoding line_ending) fs of
               (Inl e, fs') \<Rightarrow> Inr (shown @ [ExportError e], fs')
             | (Inr u, fs') \<Rightarrow> Inr (shown @ [Exported path], fs')))"

section \<open>The company tab: import\<close>

text \<open>
  \<open>df[col] = ""\<close> for a new column name: the column is added at the end, with empty
  text in every row.
\<close>

definition add_column :: "string \<Rightarrow> dataframe \<Rightarrow> dataframe" where
  "add_column col d = d\<lparr>columns := columns d @ [col], data := map (\<lambda>r. r @ [PyStr '''']) (data d)\<rparr>"

text \<open>
  \<open>df[cols]\<close> for a list of names: the named columns in the order of the list, and
  \<open>KeyError\<close> when a name is not a column.
\<close>

definition select_columns :: "string list \<Rightarrow> dataframe \<Rightarrow> pyerror + dataframe" where
  "select_columns cols d =
     (case those (map (col_index (columns d)) cols) of
        None \<Rightarrow> Inl KeyError
      | Some js \<Rightarrow> Inr \<lparr>columns = cols, data = map (\<lambda>r. map (\<lambda>j. r ! j) js) (data d)\<rparr>)"

text \<open>\<open>df.fillna("")\<close>: a missing value becomes empty text.\<close>

definition fillna :: "dataframe \<Rightarrow> dataframe" where
  "fillna d = d\<lparr>data := map (map (\<lambda>x. if x = PyNaN then PyStr '''' else x)) (data d)\<rparr>"

text \<open>
  \<^verbatim>\<open>
  for col in COLUMNS:
      if col not in df.columns:
          df[col] = ""
  df = df[COLUMNS].fillna("")
  \<close>
\<close>

definition add_missing :: "dataframe \<Rightarrow> dataframe" where
  "add_missing d = fold (\<lambda>col d'. if col \<notin> set (columns d') then add_column col d' else d') COLUMNS d"

definition to_schema :: "dataframe \<Rightarrow> pyerror + dataframe" where
  "to_schema d =
     (case select_columns COLUMNS (add_missing d) of
        Inl e \<Rightarrow> Inl e
      | Inr d' \<Rightarrow> Inr (fillna d'))"

text \<open>
  \<^verbatim>\<open>
  def load_data(self):
      path, _ = QFileDialog.getOpenFileName(...)
      if not path:
          return
      try:
          if path.lower().endswith(".csv"):
              df = pd.read_csv(path, dtype=object, keep_default_na=False)
          else:
              df = pd.read_excel(path, dtype=object)
          ...                               # to_schema
          self.df = df
          self.model = PandasModel(self.df)
          ...
      except Exception as e:
          QMessageBox.critical(self, "Import error", str(e))
  \<close>
  The path chosen in the dialog and what the pandas reader returns for it, a frame or the
  text of the exception it raises, are inputs. The result is the tab and the messages
  shown.
\<close>

definition load_data :: "string \<Rightarrow> string + dataframe \<Rightarrow> CompanyTab \<Rightarrow> CompanyTab \<times> dialog list" where
  "load_data path read tab =
     (if path = [] then (tab, [])
      else
        case read of
          Inl e \<Rightarrow> (tab, [ImportError (Message e)])
        | Inr d \<Rightarrow>
            (case to_schema d of
               Inl e \<Rightarrow> (tab, [ImportError (Raised e)])
             | Inr d' \<Rightarrow> (tab\<lparr>model := \<lparr>df = d', emitted = 0\<rparr>\<rparr>, [])))"

section \<open>Floating-point numbers\<close>

text \<open>
  A Python \<open>float\<close> is an IEEE 754 binary64 number. A finite one is a rational number,
  and is kept as that number; the two zeros are not told apart. The other values are
  the two infinities and NaN.
\<close>

datatype pyfloat = Finite rat | PosInf | NegInf | NotANumber

function bit_length :: "nat \<Rightarrow> nat" where
  "bit_length n = (if n = 0 then 0 else Suc (bit_length (n div 2)))"
  by pat_completeness auto
termination
  by (relation "measure (\<lambda>n. n)") auto

declare bit_length.simps [simp del]

definition pow2 :: "int \<Rightarrow> rat" where
  "pow2 e = (if 0 \<le> e then 2 ^ nat e else 1 / 2 ^ nat (- e))"

definition pow10 :: "int \<Rightarrow> rat" where
  "pow10 e = (if 0 \<le> e then 10 ^ nat e else 1 / 10 ^ nat (- e))"

text \<open>For \<open>a > 0\<close>, the exponent \<open>e\<close> with \<open>2 ^ e \<le> a < 2 ^ (e + 1)\<close>.\<close>

definition floor_log2 :: "rat \<Rightarrow> int" where
  "floor_log2 a =
     (let (p, q) = quotient_of a;
          k = int (bit_length (nat p)) - int (bit_length (nat q))
      in if pow2 k \<le> a then k else k - 1)"

definition round_half_even :: "rat \<Rightarrow> int" where
  "round_half_even y =
     (let f = \<lfloor>y\<rfloor>; d = y - of_int f
      in if d < 1 / 2 then f else if 1 / 2 < d then f + 1 else if even f then f else f + 1)"

text \<open>
  Rounding a rational number to the nearest binary64 number, ties to even: 53
  significant bits, a least exponent of \<open>- 1022\<close> (below it the spacing stays at
  \<open>2 ^ - 1074\<close>), and infinity from \<open>2 ^ 1024\<close> on.
\<close>

definition to_double :: "rat \<Rightarrow> pyfloat" where
  "to_double x =
     (if x = 0 then Finite 0
      else
        let a = \<bar>x\<bar>;
            e = max (floor_log2 a) (- 1022);
            q = pow2 (e - 52);
            r = of_int (round_half_even (a / q)) * q
        in if pow2 1024 \<le> r then (if 0 < x then PosInf else NegInf)
           else Finite (if 0 < x then r else - r))"

text \<open>\<open>a + b\<close> on floats.\<close>

fun float_add :: "pyfloat \<Rightarrow> pyfloat \<Rightarrow> pyfloat" where
  "float_add (Finite a) (Finite b) = to_double (a + b)"
| "float_add NotANumber y = NotANumber"
| "float_add x NotANumber = NotANumber"
| "float_add PosInf NegInf = NotANumber"
| "float_add NegInf PosInf = NotANumber"
| "float_add PosInf y = PosInf"
| "float_add NegInf y = NegInf"
| "float_add (Finite a) y = y"

text \<open>
  \<open>float(s)\<close> on text. After trimming and one optional sign: \<open>inf\<close>, \<open>infinity\<close> or
  \<open>nan\<close> in any case, or a decimal number: digit runs around an optional point, at least
  one of them present, and an optional exponent \<open>e\<close> or \<open>E\<close> with its sign and digit run.
  Anything else raises \<open>ValueError\<close>. The value is rounded correctly.
\<close>

definition digit_run :: "string \<Rightarrow> string \<times> string" where
  "digit_run s =
     (takeWhile (\<lambda>c. isdecimal_char c \<or> c = CHR ''_'') s,
      dropWhile (\<lambda>c. isdecimal_char c \<or> c = CHR ''_'') s)"

definition parse_exponent :: "string \<Rightarrow> int option" where
  "parse_exponent r =
     (case r of
        [] \<Rightarrow> Some 0
      | c # t \<Rightarrow>
          if c = CHR ''e'' \<or> c = CHR ''E'' then
            (let neg = (t \<noteq> [] \<and> hd t = CHR ''-'');
                 d = (if t \<noteq> [] \<and> (hd t = CHR ''-'' \<or> hd t = CHR ''+'') then tl t else t)
             in if digitpart d
                then Some (if neg then - int (decimal_value d) else int (decimal_value d))
                else None)
          else None)"

definition parse_number :: "string \<Rightarrow> rat option" where
  "parse_number s =
     (let (ip, r1) = digit_run s;
          (fp, r2) = (case r1 of
                        [] \<Rightarrow> ([], [])
                      | c # t \<Rightarrow> if c = CHR ''.'' then digit_run t else ([], r1))
      in if (ip = [] \<or> digitpart ip) \<and> (fp = [] \<or> digitpart fp) \<and> (ip \<noteq> [] \<or> fp \<noteq> [])
         then
           (case parse_exponent r2 of
              None \<Rightarrow> None
            | Some ex \<Rightarrow>
                Some ((of_nat (decimal_value ip) +
                       of_nat (decimal_value fp) / 10 ^ length (filter (\<lambda>c. c \<noteq> CHR ''_'') fp)) *
                      pow10 ex))
         else None)"

definition py_float :: "string \<Rightarrow> pyerror + pyfloat" where
  "py_float s0 =
     (let s = strip s0;
          neg = (s \<noteq> [] \<and> hd s = CHR ''-'');
          body = (if s \<noteq> [] \<and> (hd s = CHR ''-'' \<or> hd s = CHR ''+'') then tl s else s);
          low = map ascii_lower body
      in if low = ''inf'' \<or> low = ''infinity'' then Inr (if neg then NegInf else PosInf)
         else if low = ''nan'' then Inr NotANumber
         else
           (case parse_number body of
              None \<Rightarrow> Inl ValueError
            | Some v \<Rightarrow> Inr (to_double (if neg then - v else v))))"

section \<open>The company tab: running total\<close>

text \<open>
  \<^verbatim>\<open>
  s = 0.0
  for x in self.model._df["Amount"].tolist():
      if str(x).strip():
          try:
              s += float(money_to_csv(x))
          except:
              pass
  \<close>
\<close>

definition add_amount :: "cell \<Rightarrow> pyfloat \<Rightarrow> pyfloat" where
  "add_amount x s =
     (if strip (str x) \<noteq> [] then
        (case py_float (money_to_csv_str (str x)) of
           Inl e \<Rightarrow> s
         | Inr v \<Rightarrow> float_add s v)
      else s)"

definition total :: "cell list \<Rightarrow> pyfloat" where
  "total xs = fold add_amount xs (Finite 0)"

text \<open>
  \<open>f"{s:,.2f}"\<close>: the value rounded to two decimals (ties to even, on the exact value),
  with a comma between groups of three digits of the integer part.
\<close>

function group3 :: "string \<Rightarrow> string" where
  "group3 ds = (if length ds \<le> 3 then ds
                else group3 (take (length ds - 3) ds) @ CHR '','' # drop (length ds - 3) ds)"
  by pat_completeness auto
termination
  by (relation "measure length") auto

declare group3.simps [simp del]

fun format_2f :: "pyfloat \<Rightarrow> string" where
  "format_2f (Finite v) =
     (let n = nat (round_half_even (\<bar>v\<bar> * 100))
      in (if v < 0 then ''-'' else []) @ group3 (digits (n div 100)) @ ''.'' @
         [digit_char (n mod 100 div 10), digit_char (n mod 10)])"
| "format_2f PosInf = ''inf''"
| "format_2f NegInf = ''-inf''"
| "format_2f NotANumber = ''nan''"

text \<open>
  \<^verbatim>\<open>
  def update_total(self):
      try:
          s = 0.0
          ...
          self.total_label.setText(f"Total: {s:,.2f}".replace(",", "X").replace(".", ",").replace("X", "."))
      except Exception:
          self.total_label.setText("Total : 0.00")
  \<close>
  The text that the label gets.
\<close>

definition update_total :: "dataframe \<Rightarrow> string" where
  "update_total d =
     (case column d ''Amount'' of
        Inl e \<Rightarrow> ''Total : 0.00''
      | Inr xs \<Rightarrow>
          replace (replace (replace (''Total: '' @ format_2f (total xs)) CHR '','' ''X'') CHR ''.'' '','')
            CHR ''X'' ''.'')"

section \<open>Auxiliary notions\<close>

text \<open>
  The characters that \<open>money_to_csv\<close> deletes, and its rewriting of the comma, used
  to state what the chain of replacements does to each character.
\<close>

definition separators :: "char \<Rightarrow> bool" where
  "separators c = (c = CHR '' '' \<or> c = nbsp \<or> c = CHR ''.'' \<or> c = CHR ''#'')"

definition comma_to_dot :: "char \<Rightarrow> char" where
  "comma_to_dot c = (if c = CHR '','' then CHR ''.'' else c)"

text \<open>The schema columns that a frame lacks, in schema order.\<close>

definition missing :: "dataframe \<Rightarrow> string list \<Rightarrow> string list" where
  "missing d cs = filter (\<lambda>c. c \<notin> set (columns d)) cs"




section \<open>Properties of the row operations\<close>





text \<open>
  C8: Delete at a position that is negative or at least the current size returns false and
  leaves the model, and with it the record sequence, as it was.
\<close>

theorem removeRows_out_of_range:
  "position < 0 \<or> position \<ge> rowCount m \<Longrightarrow> removeRows position count m = (False, m)"
  by (simp add: removeRows_def)

theorem removeRows_out_of_range_witness:
  "((5::int) < 0 \<or> 5 \<ge> rowCount \<lparr>df = \<lparr>columns = [''PO_No.'', ''Amount''], data = [[PyStr ''1'', PyStr ''10,00''], [PyStr ''2'', PyStr ''5,50'']]\<rparr>, emitted = 0\<rparr>) \<and>
   removeRows 5 1 \<lparr>df = \<lparr>columns = [''PO_No.'', ''Amount''], data = [[PyStr ''1'', PyStr ''10,00''], [PyStr ''2'', PyStr ''5,50'']]\<rparr>, emitted = 0\<rparr> =
     (False, \<lparr>df = \<lparr>columns = [''PO_No.'', ''Amount''], data = [[PyStr ''1'', PyStr ''10,00''], [PyStr ''2'', PyStr ''5,50'']]\<rparr>, emitted = 0\<rparr>) \<and>
   removeRows (- 1) 1 \<lparr>df = \<lparr>columns = [''PO_No.'', ''Amount''], data = [[PyStr ''1'', PyStr ''10,00''], [PyStr ''2'', PyStr ''5,50'']]\<rparr>, emitted = 0\<rparr> =
     (False, \<lparr>df = \<lparr>columns = [''PO_No.'', ''Amount''], data = [[PyStr ''1'', PyStr ''10,00''], [PyStr ''2'', PyStr ''5,50'']]\<rparr>, emitted = 0\<rparr>)"
  using removeRows_out_of_range [of 5 "\<lparr>df = \<lparr>columns = [''PO_No.'', ''Amount''], data = [[PyStr ''1'', PyStr ''10,00''], [PyStr ''2'', PyStr ''5,50'']]\<rparr>, emitted = 0\<rparr>" 1]
    removeRows_out_of_range [of "- 1" "\<lparr>df = \<lparr>columns = [''PO_No.'', ''Amount''], data = [[PyStr ''1'', PyStr ''10,00''], [PyStr ''2'', PyStr ''5,50'']]\<rparr>, emitted = 0\<rparr>" 1]
  by (simp add: rowCount_def)



section \<open>Properties of adding a row\<close>

text \<open>
  C1: a blank record added after a record whose purchase-order field is \<open>"5"\<close>. The
  claim asks for 6 in the new record. \<open>add_row\<close> stores \<open>int(str(prev))\<close>, which is 5:
  the number of the record before, not incremented.
\<close>

theorem add_row_repeats_po_number:
  "add_row None \<lparr>df = \<lparr>columns = COLUMNS, data = [PyStr ''5'' # replicate 13 (PyStr '''')]\<rparr>, emitted = 0\<rparr> =
     Some \<lparr>df = \<lparr>columns = COLUMNS,
                 data = [PyStr ''5'' # replicate 13 (PyStr ''''), PyInt 5 # replicate 13 (PyStr '''')]\<rparr>,
           emitted = 1\<rparr>"
  by (simp add: add_row_def COLUMNS_def rowCount_def insertRows_def columnCount_def slice_def
      slice_bound_def po_number_def at_get_def at_set_def isdigit_def isdigit_char_def
      isdecimal_char_def py_int_def strip_def lstrip_def rstrip_def isspace_def
      decimal_value_def digit_val_def Let_def numeral_nat)

section \<open>Properties of the amount normalisation\<close>

lemma replace_chain:
  "replace (replace (replace (replace (replace t CHR '' '' []) nbsp []) CHR ''.'' ''#'') CHR '','' ''.'') CHR ''#'' [] =
   map comma_to_dot (filter (\<lambda>c. \<not> separators c) t)"
  by (induction t) (auto simp: separators_def comma_to_dot_def nbsp_def)

lemma money_to_csv_str_eq:
  "money_to_csv_str s = map comma_to_dot (filter (\<lambda>c. \<not> separators c) (strip s))"
  by (simp add: money_to_csv_str_def Let_def replace_chain)

lemma length_strip: "length (strip s) \<le> length s"
  unfolding strip_def lstrip_def rstrip_def
  by (metis length_rev length_dropWhile_le order_trans)

lemma dropWhile_same_length:
  "length (dropWhile P xs) = length xs \<Longrightarrow> dropWhile P xs = xs"
proof (cases xs)
  case Nil
  then show ?thesis by simp
next
  case (Cons x ys)
  assume len: "length (dropWhile P xs) = length xs"
  show ?thesis
  proof (cases "P x")
    case True
    have "length (dropWhile P ys) \<le> length ys"
      by (rule length_dropWhile_le)
    with len Cons True show ?thesis by simp
  next
    case False
    with Cons show ?thesis by simp
  qed
qed

lemma strip_same_length:
  assumes "length (strip s) = length s"
  shows "strip s = s"
proof -
  have a: "length (strip s) \<le> length (lstrip s)"
    unfolding strip_def rstrip_def using length_dropWhile_le [of isspace "rev (lstrip s)"] by simp
  have b: "length (lstrip s) \<le> length s"
    unfolding lstrip_def by (rule length_dropWhile_le)
  from a b assms have l: "length (lstrip s) = length s" and r: "length (strip s) = length (lstrip s)"
    by simp_all
  from l have ls: "lstrip s = s"
    unfolding lstrip_def by (rule dropWhile_same_length)
  from r have "length (dropWhile isspace (rev (lstrip s))) = length (rev (lstrip s))"
    by (simp add: strip_def rstrip_def)
  then have "dropWhile isspace (rev (lstrip s)) = rev (lstrip s)"
    by (rule dropWhile_same_length)
  then show ?thesis
    by (simp add: strip_def rstrip_def ls)
qed

lemma filter_dropWhile_not: "filter (\<lambda>c. \<not> P c) (dropWhile P xs) = filter (\<lambda>c. \<not> P c) xs"
  by (induction xs) simp_all

lemma filter_strip: "filter (\<lambda>c. \<not> isspace c) (strip s) = filter (\<lambda>c. \<not> isspace c) s"
proof -
  have "filter (\<lambda>c. \<not> isspace c) (strip s) =
        rev (filter (\<lambda>c. \<not> isspace c) (dropWhile isspace (rev (lstrip s))))"
    by (simp add: strip_def rstrip_def rev_filter)
  also have "\<dots> = filter (\<lambda>c. \<not> isspace c) (lstrip s)"
    by (simp add: filter_dropWhile_not rev_filter)
  also have "\<dots> = filter (\<lambda>c. \<not> isspace c) s"
    by (simp add: lstrip_def filter_dropWhile_not)
  finally show ?thesis .
qed

lemma in_strip_iff:
  assumes "\<not> isspace c"
  shows "c \<in> set (strip s) \<longleftrightarrow> c \<in> set s"
proof -
  have "c \<in> set (strip s) \<longleftrightarrow> c \<in> set (filter (\<lambda>c. \<not> isspace c) (strip s))"
    using assms by simp
  also have "\<dots> \<longleftrightarrow> c \<in> set (filter (\<lambda>c. \<not> isspace c) s)"
    by (simp only: filter_strip)
  also have "\<dots> \<longleftrightarrow> c \<in> set s"
    using assms by simp
  finally show ?thesis .
qed

lemma comma_in_strip: "CHR '','' \<in> set (strip s) \<longleftrightarrow> CHR '','' \<in> set s"
  by (rule in_strip_iff) (simp add: isspace_def)

lemma filter_same_length:
  "length (filter P xs) = length xs \<Longrightarrow> filter P xs = xs"
proof (induction xs)
  case Nil
  then show ?case by simp
next
  case (Cons x xs)
  have "length (filter P xs) \<le> length xs"
    by (rule length_filter_le)
  with Cons show ?case
    by (cases "P x") simp_all
qed

lemma dot_in_money_to_csv:
  "CHR ''.'' \<in> set (money_to_csv_str s) \<longleftrightarrow> CHR '','' \<in> set s"
proof -
  have "CHR ''.'' \<in> set (money_to_csv_str s) \<longleftrightarrow> CHR '','' \<in> set (strip s)"
    by (auto simp: money_to_csv_str_eq separators_def comma_to_dot_def nbsp_def split: if_splits)
  then show ?thesis
    by (simp add: comma_in_strip)
qed

text \<open>
  C2, as amended: a second application of \<open>money_to_csv\<close> changes nothing exactly when
  the input has no comma and the first result neither starts nor ends with whitespace.
  (A comma becomes a dot, and the second application deletes that dot as a thousands
  separator.)
\<close>

theorem money_to_csv_twice:
  "money_to_csv_str (money_to_csv_str s) = money_to_csv_str s \<longleftrightarrow>
   CHR '','' \<notin> set s \<and> strip (money_to_csv_str s) = money_to_csv_str s"
proof -
  let ?r = "money_to_csv_str s"
  let ?keep = "filter (\<lambda>c. \<not> separators c) (strip ?r)"
  have twice: "money_to_csv_str ?r = map comma_to_dot ?keep"
    by (rule money_to_csv_str_eq)
  have fwd: "CHR '','' \<notin> set s \<and> strip ?r = ?r" if fp: "money_to_csv_str ?r = ?r"
  proof -
    have e1: "length ?r = length ?keep"
      using fp twice by (metis length_map)
    have e2: "length ?keep \<le> length (strip ?r)"
      by (rule length_filter_le)
    have e3: "length (strip ?r) \<le> length ?r"
      by (rule length_strip)
    have l1: "length (strip ?r) = length ?r"
      using e1 e2 e3 by linarith
    have l2: "length ?keep = length (strip ?r)"
      using e1 e2 e3 by linarith
    have st: "strip ?r = ?r"
      using l1 by (rule strip_same_length)
    have "?keep = strip ?r"
      using l2 by (rule filter_same_length)
    then have "filter (\<lambda>c. \<not> separators c) ?r = ?r"
      using st by simp
    then have "\<forall>c\<in>set ?r. \<not> separators c"
      by (simp add: filter_id_conv)
    then have "CHR ''.'' \<notin> set ?r"
      by (auto simp: separators_def)
    then have "CHR '','' \<notin> set s"
      by (simp add: dot_in_money_to_csv)
    with st show ?thesis
      by simp
  qed
  have bwd: "money_to_csv_str ?r = ?r" if a: "CHR '','' \<notin> set s \<and> strip ?r = ?r"
  proof -
    from a have nocomma: "CHR '','' \<notin> set (strip s)"
      by (simp add: comma_in_strip)
    have chars: "\<forall>c\<in>set ?r. \<not> separators c \<and> c \<noteq> CHR '',''"
      using nocomma
      by (auto simp: money_to_csv_str_eq [of s] comma_to_dot_def separators_def split: if_splits)
    have "?keep = ?r"
      using a chars by (simp add: filter_id_conv)
    moreover have "map comma_to_dot ?r = ?r"
      using chars by (simp add: map_idI comma_to_dot_def)
    ultimately show ?thesis
      using twice by simp
  qed
  from fwd bwd show ?thesis
    by blast
qed

text \<open>
  C2, as stated, fails: \<open>"10,5"\<close> gives \<open>"10.5"\<close> and then \<open>"105"\<close>, and the
  canonical value \<open>"1234.56"\<close> is not left unchanged.
\<close>

theorem money_to_csv_not_idempotent:
  "money_to_csv_str (money_to_csv_str ''10,5'') \<noteq> money_to_csv_str ''10,5'' \<and>
   money_to_csv_str ''1234.56'' \<noteq> ''1234.56''"
  by (simp add: money_to_csv_str_def strip_def lstrip_def rstrip_def isspace_def nbsp_def)

theorem money_to_csv_twice_witness:
  "money_to_csv_str (money_to_csv_str '' 1.234 '') = money_to_csv_str '' 1.234 ''"
proof -
  have "CHR '','' \<notin> set '' 1.234 '' \<and>
        strip (money_to_csv_str '' 1.234 '') = money_to_csv_str '' 1.234 ''"
    by (simp add: money_to_csv_str_def strip_def lstrip_def rstrip_def isspace_def nbsp_def)
  then show ?thesis
    by (rule money_to_csv_twice [THEN iffD2])
qed


section \<open>Properties of the import\<close>

lemma col_index_None: "col_index xs c = None \<longleftrightarrow> c \<notin> set xs"
  by (induction xs) auto

lemma col_index_Some: "col_index xs c = Some j \<Longrightarrow> j < length xs \<and> xs ! j = c"
  by (induction xs arbitrary: j) (auto split: if_splits)


lemma col_index_append:
  "col_index (xs @ ys) c =
     (case col_index xs c of
        Some j \<Rightarrow> Some j
      | None \<Rightarrow> (case col_index ys c of None \<Rightarrow> None | Some j \<Rightarrow> Some (length xs + j)))"
  by (induction xs) (auto split: option.splits)

lemma those_map_Some:
  "\<forall>x\<in>set xs. f x \<noteq> None \<Longrightarrow> those (map f xs) = Some (map (\<lambda>x. the (f x)) xs)"
  by (induction xs) auto

lemma fold_add_missing:
  "distinct cs \<Longrightarrow>
   fold (\<lambda>col d'. if col \<notin> set (columns d') then add_column col d' else d') cs d =
   d\<lparr>columns := columns d @ missing d cs,
     data := map (\<lambda>r. r @ replicate (length (missing d cs)) (PyStr '''')) (data d)\<rparr>"
proof (induction cs arbitrary: d)
  case Nil
  then show ?case by (simp add: missing_def)
next
  case (Cons c cs)
  show ?case
  proof (cases "c \<in> set (columns d)")
    case True
    with Cons show ?thesis by (simp add: missing_def)
  next
    case False
    have m: "missing (add_column c d) cs = missing d cs"
      using Cons.prems by (auto simp: missing_def add_column_def intro: filter_cong)
    show ?thesis
      using False Cons.prems Cons.IH [of "add_column c d"]
      by (simp add: m) (simp add: missing_def add_column_def replicate_append_same)
  qed
qed


lemma distinct_COLUMNS: "distinct COLUMNS"
  by (simp add: COLUMNS_def)

lemma add_missing_eq:
  "add_missing d =
   d\<lparr>columns := columns d @ missing d COLUMNS,
     data := map (\<lambda>r. r @ replicate (length (missing d COLUMNS)) (PyStr '''')) (data d)\<rparr>"
  unfolding add_missing_def by (rule fold_add_missing) (rule distinct_COLUMNS)

lemma pick_cell:
  assumes len: "length r = length (columns d)" and c: "c \<in> set cs"
  shows "(r @ replicate (length (missing d cs)) (PyStr '''')) ! the (col_index (columns d @ missing d cs) c) =
         (case col_index (columns d) c of None \<Rightarrow> PyStr '''' | Some j \<Rightarrow> r ! j)"
proof (cases "col_index (columns d) c")
  case (Some j)
  then have "j < length r"
    using col_index_Some [of "columns d" c j] len by simp
  with Some show ?thesis
    by (simp add: col_index_append nth_append)
next
  case None
  then have "c \<in> set (missing d cs)"
    using c by (simp add: col_index_None missing_def)
  then obtain j where j: "col_index (missing d cs) c = Some j"
    using col_index_None [of "missing d cs" c] by (cases "col_index (missing d cs) c") auto
  then have "j < length (missing d cs)"
    using col_index_Some by blast
  with None j len show ?thesis
    by (simp add: col_index_append nth_append)
qed

lemma present_after_add:
  "c \<in> set cs \<Longrightarrow> col_index (columns d @ missing d cs) c \<noteq> None"
  by (auto simp: col_index_None missing_def)

lemma to_schema_eq:
  assumes "wf_df d"
  shows "to_schema d =
         Inr \<lparr>columns = COLUMNS,
              data = map (\<lambda>r. map (\<lambda>c. case col_index (columns d) c of
                                          None \<Rightarrow> PyStr ''''
                                        | Some j \<Rightarrow> if r ! j = PyNaN then PyStr '''' else r ! j) COLUMNS)
                       (data d)\<rparr>"
proof -
  let ?cols = "columns d @ missing d COLUMNS"
  let ?m = "length (missing d COLUMNS)"
  have js: "those (map (col_index ?cols) COLUMNS) = Some (map (\<lambda>c. the (col_index ?cols c)) COLUMNS)"
    by (rule those_map_Some) (simp add: present_after_add)
  have rows: "length r = length (columns d)" if "r \<in> set (data d)" for r
    using assms that by (simp add: wf_df_def list_all_iff)
  have sel: "select_columns COLUMNS (add_missing d) =
        Inr \<lparr>columns = COLUMNS,
             data = map (\<lambda>r. map (\<lambda>c. case col_index (columns d) c of None \<Rightarrow> PyStr '''' | Some j \<Rightarrow> r ! j) COLUMNS) (data d)\<rparr>"
    using rows by (simp add: select_columns_def add_missing_eq js comp_def pick_cell)
  show ?thesis
    unfolding to_schema_def sel
    by (simp add: fillna_def comp_def option.case_distrib [of "\<lambda>x. if x = PyNaN then PyStr '''' else x"]
        cong: option.case_cong)
qed


text \<open>
  C5: for a frame that the reader returns, import succeeds without a message, and the
  frame of the tab has the 14 schema columns in schema order: the cell of a schema column
  that the source lacks is empty text in every row, the cell of one it has is the source
  cell (a missing value turned into empty text), and no other source column remains.
\<close>

theorem load_data_canonical_columns:
  assumes "wf_df d" and "path \<noteq> []"
  shows "load_data path (Inr d) tab =
           (tab\<lparr>model :=
              \<lparr>df = \<lparr>columns = COLUMNS,
                      data = map (\<lambda>r. map (\<lambda>c. case col_index (columns d) c of
                                                  None \<Rightarrow> PyStr ''''
                                                | Some j \<Rightarrow> if r ! j = PyNaN then PyStr '''' else r ! j)
                                         COLUMNS)
                               (data d)\<rparr>,
               emitted = 0\<rparr>\<rparr>, []) \<and>
         length COLUMNS = 14"
  using assms by (simp add: load_data_def to_schema_eq) (simp add: COLUMNS_def)

theorem load_data_canonical_columns_witness:
  "load_data ''in.csv''
     (Inr \<lparr>columns = [''Amount'', ''Extra'', ''PO_No.''],
           data = [[PyStr ''10,5'', PyStr ''x'', PyStr ''7''], [PyNaN, PyStr ''y'', PyInt 8]]\<rparr>)
     \<lparr>model = \<lparr>df = \<lparr>columns = COLUMNS, data = []\<rparr>, emitted = 0\<rparr>,
      path_edit = '''', no_header_chk = True, crlf_chk = True, bom_chk = True\<rparr> =
   (\<lparr>model = \<lparr>df = \<lparr>columns = COLUMNS,
                        data = [[PyStr ''7'', PyStr ''10,5''] @ replicate 12 (PyStr ''''),
                                [PyInt 8, PyStr ''''] @ replicate 12 (PyStr '''')]\<rparr>,
                emitted = 0\<rparr>,
      path_edit = '''', no_header_chk = True, crlf_chk = True, bom_chk = True\<rparr>, [])"
  using load_data_canonical_columns
    [of "\<lparr>columns = [''Amount'', ''Extra'', ''PO_No.''],
           data = [[PyStr ''10,5'', PyStr ''x'', PyStr ''7''], [PyNaN, PyStr ''y'', PyInt 8]]\<rparr>"
        "''in.csv''"
        "\<lparr>model = \<lparr>df = \<lparr>columns = COLUMNS, data = []\<rparr>, emitted = 0\<rparr>,
          path_edit = '''', no_header_chk = True, crlf_chk = True, bom_chk = True\<rparr>"]
  by (simp add: wf_df_def) (simp add: COLUMNS_def numeral_nat)

section \<open>Properties of the export\<close>























section \<open>Properties of the IBAN check and of writing the file\<close>













lemma columns_map_column: "columns (map_column c f d) = columns d"
  by (simp add: map_column_def split: option.splits)

lemma columns_fold_map_column: "columns (fold (\<lambda>col d'. map_column col f d') cs d) = columns d"
  by (induction cs arbitrary: d) (simp_all add: columns_map_column)

lemma columns_export_frame: "columns (export_frame d) = columns d"
  by (simp add: export_frame_def strip_text_def normalize_amount_def columns_fold_map_column
      columns_map_column)


lemma column_present:
  "c \<in> set (columns d) \<Longrightarrow> \<exists>vals. column d c = Inr vals"
  using col_index_None [of "columns d" c] by (auto simp: column_def split: option.splits)

lemma tmp_differs: "path @ ''.tmp'' \<noteq> path"
  by simp

lemma write_and_swap_raises:
  "to_csv_raises os = Some e \<Longrightarrow>
   write_and_swap os path bytes fs = (Inl e, fs(path @ ''.tmp'' := partial_tmp os))"
  by (simp add: write_and_swap_def)


lemma bad_ibans_COLUMNS:
  assumes "columns d = COLUMNS"
  shows "\<exists>payer payee.
           column (export_frame d) ''Payer Account IBAN'' = Inr payer \<and>
           column (export_frame d) ''Payee Account IBAN'' = Inr payee \<and>
           bad_ibans (export_frame d) =
             Inr (bad_in_column ''Payer Account IBAN'' payer @ bad_in_column ''Payee Account IBAN'' payee)"
proof -
  have "''Payer Account IBAN'' \<in> set (columns (export_frame d))"
    and "''Payee Account IBAN'' \<in> set (columns (export_frame d))"
    using assms by (simp_all add: columns_export_frame COLUMNS_def)
  then obtain payer payee where
    "column (export_frame d) ''Payer Account IBAN'' = Inr payer"
    "column (export_frame d) ''Payee Account IBAN'' = Inr payee"
    using column_present by blast
  then show ?thesis
    by (simp add: bad_ibans_def)
qed

text \<open>
  C4: when the write to the temporary file raises, export shows the error and stops:
  nothing follows the error message, the destination holds what it held before (or still
  does not exist), and no file other than the temporary one has changed.
\<close>

theorem export_csv_write_error:
  assumes "columns (df (model tab)) = COLUMNS" and "strip (path_edit tab) \<noteq> []"
    and "to_csv_raises os = Some e"
  shows "\<exists>shown fs'.
           export_csv to_csv os tab fs = Inr (shown @ [ExportError e], fs') \<and>
           (shown = [] \<or> (\<exists>sample. shown = [Validation sample])) \<and>
           fs' (strip (path_edit tab)) = fs (strip (path_edit tab)) \<and>
           (\<forall>p. p \<noteq> strip (path_edit tab) @ ''.tmp'' \<longrightarrow> fs' p = fs p)"
proof -
  obtain bad where bad: "bad_ibans (export_frame (df (model tab))) = Inr bad"
    using bad_ibans_COLUMNS [OF assms(1)] by blast
  show ?thesis
    using assms(2,3) bad
    by (simp add: export_csv_def Let_def write_and_swap_raises)
qed

theorem export_csv_write_error_witness:
  "\<exists>shown fs'.
     export_csv (\<lambda>d header encoding line_ending. ''bytes'')
       \<lparr>to_csv_raises = Some ''disk full'', partial_tmp = Some ''1,2'',
        remove_raises = None, replace_raises = None\<rparr>
       \<lparr>model = \<lparr>df = \<lparr>columns = COLUMNS, data = []\<rparr>, emitted = 0\<rparr>,
        path_edit = '' out.csv '', no_header_chk = True, crlf_chk = True, bom_chk = True\<rparr>
       [''out.csv'' \<mapsto> ''old''] = Inr (shown @ [ExportError ''disk full''], fs') \<and>
     fs' ''out.csv'' = Some ''old''"
proof -
  let ?tab = "\<lparr>model = \<lparr>df = \<lparr>columns = COLUMNS, data = []\<rparr>, emitted = 0\<rparr>,
        path_edit = '' out.csv '', no_header_chk = True, crlf_chk = True, bom_chk = True\<rparr>"
  let ?os = "\<lparr>to_csv_raises = Some ''disk full'', partial_tmp = Some ''1,2'',
        remove_raises = None, replace_raises = None\<rparr>"
  have path: "strip (path_edit ?tab) = ''out.csv''"
    by (simp add: strip_def lstrip_def rstrip_def isspace_def)
  have h1: "columns (df (model ?tab)) = COLUMNS"
    by simp
  have h2: "strip (path_edit ?tab) \<noteq> []"
    by (simp only: path) simp
  have h3: "to_csv_raises ?os = Some ''disk full''"
    by simp
  from export_csv_write_error [OF h1 h2 h3, of "\<lambda>d header encoding line_ending. ''bytes''" "[''out.csv'' \<mapsto> ''old'']"]
  obtain shown fs' where
    "export_csv (\<lambda>d header encoding line_ending. ''bytes'') ?os ?tab [''out.csv'' \<mapsto> ''old''] =
       Inr (shown @ [ExportError ''disk full''], fs')"
    "fs' (strip (path_edit ?tab)) = [''out.csv'' \<mapsto> ''old''] (strip (path_edit ?tab))"
    by blast
  then show ?thesis
    unfolding path by (intro exI [of _ shown] exI [of _ fs']) simp
qed





end
